theory Spec2Isabelle
  imports Complex_Main "HOL-Library.Multiset" "HOL-Library.Monad_Syntax"
begin

section \<open>Python values used by the persona engine\<close>

text \<open>
  The program is Python. Its integers are unbounded and are modelled by \<open>int\<close>, its
  strings by \<open>string\<close>. A Python \<open>float\<close> is modelled by a rational number (\<open>rat\<close>).
  Every comparison the code makes (\<open>polarity > 0.3\<close>, \<open>time_diff_seconds < 2\<close>,
  \<open>avg_message_length > 30\<close>) is an exact order comparison in Python as well. A decimal
  literal such as \<open>0.3\<close>, and the result of \<open>round(x, 2)\<close>, stand for the double nearest
  to the decimal and are modelled by the decimal itself: no double lies strictly between
  the two, so a double is above the literal \<open>0.3\<close> exactly when it is above 3/10. The
  values NaN and infinity are not represented.

  A \<open>dict\<close> whose iteration order is observable (\<open>topic_interests\<close>, which is sorted with
  a stable sort) is an association list in insertion order; the dicts with a fixed set of
  keys are records.
\<close>

subsection \<open>Rounding\<close>

text \<open>
  \<open>round(x, n)\<close> on a float rounds to \<open>n\<close> decimal places, a tie going to the even
  neighbour.
\<close>

definition round_half_even :: "rat \<Rightarrow> int" where
  "round_half_even x =
     (let f = \<lfloor>x\<rfloor>; d = x - of_int f
      in if d < 1 / 2 then f
         else if 1 / 2 < d then f + 1
         else if even f then f else f + 1)"

definition py_round :: "rat \<Rightarrow> nat \<Rightarrow> rat" where
  "py_round x n = of_int (round_half_even (x * 10 ^ n)) / 10 ^ n"

subsection \<open>Strings\<close>

text \<open>
  A \<open>char\<close> is a code point below 256; text with other code points is not represented.
  \<open>str.lower\<close>, \<open>str.startswith\<close>, \<open>str.join\<close> and \<open>str.split()\<close> (no argument: split at
  runs of whitespace, the characters of which \<open>str.isspace\<close> holds) are as Python has
  them on these code points; \<open>str.capitalize\<close> is given for ASCII letters only.
\<close>

definition lower_char :: "char \<Rightarrow> char" where
  "lower_char c =
     (let n = (of_char c :: nat)
      in if (65 \<le> n \<and> n \<le> 90) \<or> (192 \<le> n \<and> n \<le> 222 \<and> n \<noteq> 215)
         then char_of (n + 32) else c)"

definition upper_char :: "char \<Rightarrow> char" where
  "upper_char c =
     (let n = (of_char c :: nat) in if 97 \<le> n \<and> n \<le> 122 then char_of (n - 32) else c)"

definition lower :: "string \<Rightarrow> string" where
  "lower s = map lower_char s"

definition capitalize :: "string \<Rightarrow> string" where
  "capitalize s = (case s of [] \<Rightarrow> [] | c # cs \<Rightarrow> upper_char c # map lower_char cs)"

definition startswith :: "string \<Rightarrow> string \<Rightarrow> bool" where
  "startswith s pre = (take (length pre) s = pre)"

fun join :: "string \<Rightarrow> string list \<Rightarrow> string" where
  "join sep [] = []"
| "join sep [x] = x"
| "join sep (x # y # ys) = x @ sep @ join sep (y # ys)"

definition is_space :: "char \<Rightarrow> bool" where
  "is_space c =
     (let n = (of_char c :: nat)
      in (9 \<le> n \<and> n \<le> 13) \<or> (28 \<le> n \<and> n \<le> 32) \<or> n = 133 \<or> n = 160)"

fun split_from :: "string \<Rightarrow> string \<Rightarrow> string list" where
  "split_from cur [] = (if cur = [] then [] else [rev cur])"
| "split_from cur (c # cs) =
     (if is_space c
      then (if cur = [] then split_from [] cs else rev cur # split_from [] cs)
      else split_from (c # cur) cs)"

definition split :: "string \<Rightarrow> string list" where
  "split s = split_from [] s"

subsection \<open>Dicts in insertion order\<close>

text \<open>
  \<open>d.get(k, default)\<close> and \<open>d[k] = v\<close>: an existing key keeps its place, a new key goes to
  the end.
\<close>

definition dict_get :: "('k \<times> 'v) list \<Rightarrow> 'k \<Rightarrow> 'v \<Rightarrow> 'v" where
  "dict_get d k dflt = (case map_of d k of None \<Rightarrow> dflt | Some v \<Rightarrow> v)"

fun dict_set :: "('k \<times> 'v) list \<Rightarrow> 'k \<Rightarrow> 'v \<Rightarrow> ('k \<times> 'v) list" where
  "dict_set [] k v = [(k, v)]"
| "dict_set ((k', v') # d) k v =
     (if k' = k then (k, v) # d else (k', v') # dict_set d k v)"

text \<open>
  \<open>sorted(d.items(), key=lambda item: item[1], reverse=True)\<close>. Python's sort is stable
  and \<open>reverse=True\<close> keeps the original order of items with equal keys, so the result is
  the stable ascending sort on the negated count.
\<close>

definition sorted_by_count_desc :: "(string \<times> int) list \<Rightarrow> (string \<times> int) list" where
  "sorted_by_count_desc items = sort_key (\<lambda>item. - snd item) items"

text \<open>
  \<open>list(set(xs))\<close>: the distinct elements of \<open>xs\<close> in the iteration order of a Python
  set, which is the order of their places in the set's hash table. For strings the
  places follow the string hashes, which CPython salts with a per-process seed
  (\<open>PYTHONHASHSEED\<close>), the size of the table and the collisions met while inserting: they
  depend on the process and on the elements inserted, not on \<open>xs\<close> alone. The parameter
  \<open>h\<close> stands for the process: \<open>h xs s\<close> is the place of \<open>s\<close> in the table built from \<open>xs\<close>,
  and the elements are listed by ascending place. Every order of the distinct elements
  is \<open>list_of_set h xs\<close> for some \<open>h\<close>.
\<close>

definition list_of_set :: "(string list \<Rightarrow> string \<Rightarrow> nat) \<Rightarrow> string list \<Rightarrow> string list" where
  "list_of_set h xs = sort_key (h xs) (remdups xs)"

section \<open>behavioral_analyzer.py\<close>

text \<open>
  TextBlob is a third-party library. What the analyzer reads from a \<open>TextBlob(text)\<close> is
  taken as a parameter: \<open>blob.sentiment.polarity\<close> and \<open>blob.tags\<close> (pairs of a word and
  its part-of-speech tag).
\<close>

record textblob =
  tb_polarity :: "string \<Rightarrow> rat"
  tb_tags :: "string \<Rightarrow> (string \<times> string) list"

record emotion_dict =
  polarity :: rat
  sentiment :: string

record behavioral_data =
  typing_speed :: string
  emotion :: emotion_dict
  topics :: "string list"
  message_length :: int

definition analyze_typing_speed :: "rat \<Rightarrow> string" where
  "analyze_typing_speed time_diff_seconds =
     (if time_diff_seconds < 2 then ''very_fast''
      else if time_diff_seconds < 5 then ''fast''
      else if time_diff_seconds < 15 then ''moderate''
      else ''slow'')"

definition sentiment_of :: "rat \<Rightarrow> string" where
  "sentiment_of p =
     (if p > 3 / 10 then ''positive''
      else if p < - (3 / 10) then ''negative''
      else ''neutral'')"

definition detect_emotion :: "textblob \<Rightarrow> string \<Rightarrow> emotion_dict" where
  "detect_emotion tb txt =
     (let p = tb_polarity tb txt
      in \<lparr>polarity = py_round p 2, sentiment = sentiment_of p\<rparr>)"

definition common_words :: "string list" where
  "common_words = [''user'', ''chatbot'', ''question'', ''answer'', ''information'']"

text \<open>The list comprehension of \<open>map_context\<close>, and the function itself.\<close>

definition found_topics :: "textblob \<Rightarrow> string \<Rightarrow> string list" where
  "found_topics tb txt =
     map (\<lambda>(word, pos). lower word)
       (filter (\<lambda>(word, pos). startswith pos ''NN'' \<and> lower word \<notin> set common_words)
          (tb_tags tb txt))"

definition map_context ::
  "textblob \<Rightarrow> (string list \<Rightarrow> string \<Rightarrow> nat) \<Rightarrow> string \<Rightarrow> string list" where
  "map_context tb h txt = (let found = found_topics tb txt in list_of_set h found)"

definition analyze_behavior ::
  "textblob \<Rightarrow> (string list \<Rightarrow> string \<Rightarrow> nat) \<Rightarrow> string \<Rightarrow> rat \<Rightarrow> behavioral_data" where
  "analyze_behavior tb h user_input time_since_last_message =
     \<lparr>typing_speed = analyze_typing_speed time_since_last_message,
      emotion = detect_emotion tb user_input,
      topics = map_context tb h user_input,
      message_length = int (length (split user_input))\<rparr>"

section \<open>persona_engine.py\<close>

definition PERSONA_DIR :: string where
  "PERSONA_DIR = ''personas''"

definition HISTORY_LENGTH :: nat where
  "HISTORY_LENGTH = 10"

record emotional_state_dict =
  current_sentiment :: string
  sentiment_history :: "rat list"

record behavioral_patterns_dict =
  avg_typing_speed :: string
  speed_history :: "int list"
  avg_message_length :: rat
  length_history :: "int list"

record contextual_preferences_dict =
  topic_interests :: "(string \<times> int) list"

record persona =
  user_id :: string
  communication_style :: string
  emotional_state :: emotional_state_dict
  behavioral_patterns :: behavioral_patterns_dict
  contextual_preferences :: contextual_preferences_dict
  interaction_count :: int

subsection \<open>JSON\<close>

text \<open>
  \<open>json.dump\<close> and \<open>json.load\<close> belong to Python's library. They are modelled on JSON
  values: a \<open>dict\<close> is written as an object with its items in insertion order, a \<open>list\<close>
  as an array, a \<open>str\<close> as a string, an \<open>int\<close> and a \<open>float\<close> as numbers that are read back
  as an \<open>int\<close> and a \<open>float\<close>. The text of a file either is the JSON text of a value, which
  \<open>json.load\<close> reads back as that value, or is not JSON, and \<open>json.load\<close> raises
  \<open>JSONDecodeError\<close>.
\<close>

datatype json =
  JNull | JBool bool | JInt int | JFloat rat | JString string
  | JArray "json list" | JObject "(string \<times> json) list"

datatype file_text = JsonText json | NotJson string

text \<open>
  The value \<open>json.dump\<close> writes for a persona. The field \<open>avg_message_length\<close> holds the
  \<open>int\<close> 20 at first and a \<open>float\<close> later; Python's 20 and 20.0 are equal and are one
  rational here, written as a float.
\<close>

definition json_of_persona :: "persona \<Rightarrow> json" where
  "json_of_persona p =
     JObject
       [(''user_id'', JString (user_id p)),
        (''communication_style'', JString (communication_style p)),
        (''emotional_state'', JObject
           [(''current_sentiment'', JString (current_sentiment (emotional_state p))),
            (''sentiment_history'', JArray (map JFloat (sentiment_history (emotional_state p))))]),
        (''behavioral_patterns'', JObject
           [(''avg_typing_speed'', JString (avg_typing_speed (behavioral_patterns p))),
            (''speed_history'', JArray (map JInt (speed_history (behavioral_patterns p)))),
            (''avg_message_length'', JFloat (avg_message_length (behavioral_patterns p))),
            (''length_history'', JArray (map JInt (length_history (behavioral_patterns p))))]),
        (''contextual_preferences'', JObject
           [(''topic_interests'', JObject
               (map (\<lambda>(topic, n). (topic, JInt n))
                  (topic_interests (contextual_preferences p))))]),
        (''interaction_count'', JInt (interaction_count p))]"

text \<open>
  Reading back. \<open>json.load\<close> builds a \<open>dict\<close> from the items of an object: a repeated key
  keeps its first place and takes its last value. A loaded value is a persona when it
  has the keys and the types of values that \<open>create_new_persona\<close> and \<open>update_persona\<close>
  give one (other keys are not looked at); any other value is returned as it is.
\<close>

definition dict_of_items :: "('k \<times> 'v) list \<Rightarrow> ('k \<times> 'v) list" where
  "dict_of_items kvs = foldl (\<lambda>d (k, v). dict_set d k v) [] kvs"

fun json_str :: "json \<Rightarrow> string option" where
  "json_str (JString s) = Some s"
| "json_str _ = None"

fun json_int :: "json \<Rightarrow> int option" where
  "json_int (JInt i) = Some i"
| "json_int _ = None"

fun json_num :: "json \<Rightarrow> rat option" where
  "json_num (JInt i) = Some (of_int i)"
| "json_num (JFloat r) = Some r"
| "json_num _ = None"

fun json_list :: "json \<Rightarrow> json list option" where
  "json_list (JArray xs) = Some xs"
| "json_list _ = None"

fun json_dict :: "json \<Rightarrow> (string \<times> json) list option" where
  "json_dict (JObject kvs) = Some (dict_of_items kvs)"
| "json_dict _ = None"

definition json_key :: "json \<Rightarrow> string \<Rightarrow> json option" where
  "json_key j k = do { d \<leftarrow> json_dict j; map_of d k }"

definition emotional_state_of_json :: "json \<Rightarrow> emotional_state_dict option" where
  "emotional_state_of_json j =
     do {
       cs \<leftarrow> json_key j ''current_sentiment'' \<bind> json_str;
       sh \<leftarrow> json_key j ''sentiment_history'' \<bind> json_list \<bind> (\<lambda>xs. those (map json_num xs));
       Some \<lparr>current_sentiment = cs, sentiment_history = sh\<rparr>
     }"

definition behavioral_patterns_of_json :: "json \<Rightarrow> behavioral_patterns_dict option" where
  "behavioral_patterns_of_json j =
     do {
       ats \<leftarrow> json_key j ''avg_typing_speed'' \<bind> json_str;
       sh \<leftarrow> json_key j ''speed_history'' \<bind> json_list \<bind> (\<lambda>xs. those (map json_int xs));
       aml \<leftarrow> json_key j ''avg_message_length'' \<bind> json_num;
       lh \<leftarrow> json_key j ''length_history'' \<bind> json_list \<bind> (\<lambda>xs. those (map json_int xs));
       Some \<lparr>avg_typing_speed = ats, speed_history = sh,
             avg_message_length = aml, length_history = lh\<rparr>
     }"

definition contextual_preferences_of_json :: "json \<Rightarrow> contextual_preferences_dict option" where
  "contextual_preferences_of_json j =
     do {
       d \<leftarrow> json_key j ''topic_interests'' \<bind> json_dict;
       ti \<leftarrow> those (map (\<lambda>(topic, n). map_option (Pair topic) (json_int n)) d);
       Some \<lparr>topic_interests = ti\<rparr>
     }"

definition persona_of_json :: "json \<Rightarrow> persona option" where
  "persona_of_json j =
     do {
       uid \<leftarrow> json_key j ''user_id'' \<bind> json_str;
       style \<leftarrow> json_key j ''communication_style'' \<bind> json_str;
       es \<leftarrow> json_key j ''emotional_state'' \<bind> emotional_state_of_json;
       bp \<leftarrow> json_key j ''behavioral_patterns'' \<bind> behavioral_patterns_of_json;
       cp \<leftarrow> json_key j ''contextual_preferences'' \<bind> contextual_preferences_of_json;
       n \<leftarrow> json_key j ''interaction_count'' \<bind> json_int;
       Some \<lparr>user_id = uid, communication_style = style, emotional_state = es,
             behavioral_patterns = bp, contextual_preferences = cp, interaction_count = n\<rparr>
     }"

datatype loaded = PersonaDict persona | OtherJson json

definition json_value :: "json \<Rightarrow> loaded" where
  "json_value j = (case persona_of_json j of Some p \<Rightarrow> PersonaDict p | None \<Rightarrow> OtherJson j)"

subsection \<open>The files of the persona directory\<close>

text \<open>
  The file system the engine sees (POSIX paths): the paths of the directories that
  exist, the text of each file by path, and the paths that lie in a directory the
  process may not search (\<open>denied\<close>). \<open>os.stat\<close> fails on a denied path, so \<open>os.path.exists\<close>
  is false of it whatever is there, and opening it or making a directory there raises
  \<open>PermissionError\<close>. Opening a directory raises \<open>IsADirectoryError\<close>; opening a missing
  file for reading, or a file in a missing directory for writing, raises
  \<open>FileNotFoundError\<close>. An exception that leaves a function is the \<open>Inl\<close> of its result.

  \<open>ProfileLoadError\<close> is the error class the specification names. persona_engine.py
  neither defines nor raises it; it is listed so that this can be stated.
\<close>

datatype py_error =
  FileNotFoundError | IsADirectoryError | PermissionError | JSONDecodeError | ProfileLoadError

record filesystem =
  dirs :: "string set"
  files :: "string \<rightharpoonup> file_text"
  denied :: "string set"

definition os_path_exists :: "filesystem \<Rightarrow> string \<Rightarrow> bool" where
  "os_path_exists fs path =
     (path \<notin> denied fs \<and> (path \<in> dirs fs \<or> files fs path \<noteq> None))"

definition os_makedirs_error :: "filesystem \<Rightarrow> string \<Rightarrow> py_error option" where
  "os_makedirs_error fs path = (if path \<in> denied fs then Some PermissionError else None)"

definition os_makedirs :: "filesystem \<Rightarrow> string \<Rightarrow> filesystem" where
  "os_makedirs fs path = fs\<lparr>dirs := insert path (dirs fs)\<rparr>"

definition os_path_join :: "string \<Rightarrow> string \<Rightarrow> string" where
  "os_path_join a b =
     (if startswith b ''/'' then b
      else if a = [] \<or> last a = CHR ''/'' then a @ b
      else a @ ''/'' @ b)"

definition os_path_dirname :: "string \<Rightarrow> string" where
  "os_path_dirname path =
     (let head = rev (dropWhile (\<lambda>c. c \<noteq> CHR ''/'') (rev path))
      in if head \<noteq> [] \<and> \<not> list_all (\<lambda>c. c = CHR ''/'') head
         then rev (dropWhile (\<lambda>c. c = CHR ''/'') (rev head))
         else head)"

definition open_read :: "filesystem \<Rightarrow> string \<Rightarrow> py_error + file_text" where
  "open_read fs path =
     (if path \<in> denied fs then Inl PermissionError
      else case files fs path of
             Some contents \<Rightarrow> Inr contents
           | None \<Rightarrow> Inl (if path \<in> dirs fs then IsADirectoryError else FileNotFoundError))"

definition open_write :: "filesystem \<Rightarrow> string \<Rightarrow> file_text \<Rightarrow> py_error + filesystem" where
  "open_write fs path contents =
     (if path \<in> denied fs then Inl PermissionError
      else if path \<in> dirs fs then Inl IsADirectoryError
      else if os_path_dirname path \<in> dirs fs
      then Inr (fs\<lparr>files := (files fs)(path \<mapsto> contents)\<rparr>)
      else Inl FileNotFoundError)"

definition json_load :: "file_text \<Rightarrow> py_error + loaded" where
  "json_load contents =
     (case contents of
        JsonText j \<Rightarrow> Inr (json_value j)
      | NotJson s \<Rightarrow> Inl JSONDecodeError)"

definition json_dump :: "persona \<Rightarrow> file_text" where
  "json_dump p = JsonText (json_of_persona p)"

subsection \<open>Creating, loading and saving a persona\<close>

text \<open>
  \<open>create_new_persona\<close> makes the persona directory when \<open>os.path.exists\<close> does not find
  it, and raises what \<open>os.makedirs\<close> raises. The function is given by two definitions:
  the exception it ends with, if any (\<open>create_new_persona_error\<close>), and the dict and the
  file system it returns otherwise (\<open>create_new_persona\<close>).
\<close>

definition create_new_persona_error :: "filesystem \<Rightarrow> py_error option" where
  "create_new_persona_error fs =
     (if \<not> os_path_exists fs PERSONA_DIR then os_makedirs_error fs PERSONA_DIR else None)"

definition create_new_persona :: "filesystem \<Rightarrow> string \<Rightarrow> persona \<times> filesystem" where
  "create_new_persona fs uid =
     (let fs' = (if \<not> os_path_exists fs PERSONA_DIR then os_makedirs fs PERSONA_DIR else fs)
      in (\<lparr>user_id = uid,
           communication_style = ''neutral'',
           emotional_state = \<lparr>current_sentiment = ''neutral'', sentiment_history = []\<rparr>,
           behavioral_patterns =
             \<lparr>avg_typing_speed = ''moderate'', speed_history = [],
              avg_message_length = 20, length_history = []\<rparr>,
           contextual_preferences = \<lparr>topic_interests = []\<rparr>,
           interaction_count = 0\<rparr>, fs'))"

definition get_persona_filepath :: "string \<Rightarrow> string" where
  "get_persona_filepath uid = os_path_join PERSONA_DIR (uid @ ''_persona.json'')"

definition get_or_create_persona ::
  "filesystem \<Rightarrow> string \<Rightarrow> (py_error + loaded) \<times> filesystem" where
  "get_or_create_persona fs uid =
     (let filepath = get_persona_filepath uid
      in if os_path_exists fs filepath
         then (case open_read fs filepath of
                 Inl e \<Rightarrow> (Inl e, fs)
               | Inr contents \<Rightarrow> (json_load contents, fs))
         else (case create_new_persona_error fs of
                 Some e \<Rightarrow> (Inl e, fs)
               | None \<Rightarrow> (case create_new_persona fs uid of (p, fs') \<Rightarrow> (Inr (PersonaDict p), fs'))))"

definition save_persona :: "persona \<Rightarrow> filesystem \<Rightarrow> py_error + filesystem" where
  "save_persona p fs =
     (let filepath = get_persona_filepath (user_id p)
      in open_write fs filepath (json_dump p))"

subsection \<open>Folding a behavioural signal into a persona\<close>

text \<open>
  The three histories are plain lists kept short by hand: append, then \<open>pop(0)\<close> when
  the list is longer than \<open>HISTORY_LENGTH\<close>.
\<close>

definition append_capped :: "'a list \<Rightarrow> 'a \<Rightarrow> 'a list" where
  "append_capped history x =
     (let history' = history @ [x]
      in if length history' > HISTORY_LENGTH then tl history' else history')"

definition speed_map_get :: "string \<Rightarrow> int" where
  "speed_map_get speed =
     dict_get [(''very_fast'', 4), (''fast'', 3), (''moderate'', 2), (''slow'', 1)] speed 2"

definition bump_topic :: "(string \<times> int) list \<Rightarrow> string \<Rightarrow> (string \<times> int) list" where
  "bump_topic interests topic = dict_set interests topic (dict_get interests topic 0 + 1)"

definition update_persona :: "persona \<Rightarrow> behavioral_data \<Rightarrow> persona" where
  "update_persona p bd =
     (let count = interaction_count p + 1;
          em = emotion bd;
          sentiment_hist = append_capped (sentiment_history (emotional_state p)) (polarity em);
          speed_hist =
            append_capped (speed_history (behavioral_patterns p)) (speed_map_get (typing_speed bd));
          avg_speed_val =
            (if speed_hist \<noteq> [] then of_int (sum_list speed_hist) / of_nat (length speed_hist)
             else (2 :: rat));
          avg_speed =
            (if avg_speed_val > 7 / 2 then ''very_fast''
             else if avg_speed_val > 5 / 2 then ''fast''
             else if avg_speed_val > 3 / 2 then ''moderate''
             else ''slow'');
          length_hist =
            append_capped (length_history (behavioral_patterns p)) (message_length bd);
          avg_len =
            (if length_hist \<noteq> []
             then py_round (of_int (sum_list length_hist) / of_nat (length length_hist)) 1
             else 20);
          style =
            (if avg_len > 30 then ''detailed''
             else if avg_len < 10 then ''brief''
             else ''neutral'');
          interests = foldl bump_topic (topic_interests (contextual_preferences p)) (topics bd)
      in \<lparr>user_id = user_id p,
          communication_style = style,
          emotional_state = \<lparr>current_sentiment = sentiment em, sentiment_history = sentiment_hist\<rparr>,
          behavioral_patterns =
            \<lparr>avg_typing_speed = avg_speed, speed_history = speed_hist,
             avg_message_length = avg_len, length_history = length_hist\<rparr>,
          contextual_preferences = \<lparr>topic_interests = interests\<rparr>,
          interaction_count = count\<rparr>)"

subsection \<open>The top topics of the summary and of the prompt\<close>

text \<open>
  \<open>get_persona_summary\<close> lists \<open>sorted(...)[:3]\<close>, one line per topic, when the dict is
  not empty; \<open>create_persona_aware_prompt\<close> (rag_handler.py) sorts the same items and
  joins the first three names into \<open>topic_hint\<close>.
\<close>

definition summary_top_topics :: "persona \<Rightarrow> (string \<times> int) list" where
  "summary_top_topics p =
     (let tps = topic_interests (contextual_preferences p)
      in if tps \<noteq> [] then take 3 (sorted_by_count_desc tps) else [])"

definition summary_topic_lines :: "persona \<Rightarrow> string" where
  "summary_topic_lines p =
     (let tps = topic_interests (contextual_preferences p)
      in if tps \<noteq> []
         then [CHR 0x0A] @ ''- **Top Topics**:'' @ [CHR 0x0A] @
              concat (map (\<lambda>(topic, _). ''  - '' @ [CHR 0x60] @ capitalize topic @ [CHR 0x60, CHR 0x0A])
                        (summary_top_topics p))
         else [])"

definition topic_hint :: "persona \<Rightarrow> string" where
  "topic_hint p =
     (let top_topics = sorted_by_count_desc (topic_interests (contextual_preferences p))
      in if top_topics \<noteq> []
         then ''The user is often interested in topics like '' @
              join '', '' (map fst (take 3 top_topics)) @ ''.''
         else [])"

subsection \<open>Insertion order of a dict\<close>

text \<open>
  The place of a key in the insertion order of a dict, and the order the claims give
  to the top topics: the greater count first, and of two equal counts the key inserted
  first.
\<close>

definition insertion_rank :: "(string \<times> int) list \<Rightarrow> string \<Rightarrow> nat" where
  "insertion_rank d t = length (takeWhile (\<lambda>item. fst item \<noteq> t) d)"

definition ranks_before :: "(string \<times> int) list \<Rightarrow> string \<times> int \<Rightarrow> string \<times> int \<Rightarrow> bool" where
  "ranks_before d a b =
     (snd b < snd a \<or> (snd a = snd b \<and> insertion_rank d (fst a) < insertion_rank d (fst b)))"

section \<open>Concrete inputs\<close>

text \<open>Signals, classifiers and file systems at which the theorems below are instantiated.\<close>

definition signal_of_length :: "int \<Rightarrow> behavioral_data" where
  "signal_of_length n =
     \<lparr>typing_speed = ''fast'', emotion = \<lparr>polarity = 0, sentiment = ''neutral''\<rparr>,
      topics = [], message_length = n\<rparr>"

definition tb_const :: "rat \<Rightarrow> textblob" where
  "tb_const p = \<lparr>tb_polarity = (\<lambda>_. p), tb_tags = (\<lambda>_. [])\<rparr>"

definition empty_fs :: filesystem where
  "empty_fs = \<lparr>dirs = {}, files = Map.empty, denied = {}\<rparr>"

definition personas_fs :: filesystem where
  "personas_fs = \<lparr>dirs = {''personas''}, files = Map.empty, denied = {}\<rparr>"

definition corrupt_fs :: filesystem where
  "corrupt_fs =
     \<lparr>dirs = {''personas''},
      files = [''personas/u1_persona.json'' \<mapsto> NotJson ''{ \"user_id\": ''],
      denied = {}\<rparr>"

definition wrong_shape_fs :: filesystem where
  "wrong_shape_fs =
     \<lparr>dirs = {''personas''},
      files = [''personas/u1_persona.json'' \<mapsto> JsonText (JInt 42)],
      denied = {}\<rparr>"

definition directory_fs :: filesystem where
  "directory_fs =
     \<lparr>dirs = {''personas'', ''personas/u1_persona.json''}, files = Map.empty, denied = {}\<rparr>"

definition signal_with_topics :: "string list \<Rightarrow> behavioral_data" where
  "signal_with_topics ts =
     \<lparr>typing_speed = ''fast'', emotion = \<lparr>polarity = 0, sentiment = ''neutral''\<rparr>,
      topics = ts, message_length = 3\<rparr>"

definition tb_two_nouns :: textblob where
  "tb_two_nouns =
     \<lparr>tb_polarity = (\<lambda>_. 0),
      tb_tags = (\<lambda>_. [(''Python'', ''NNP''), (''beats'', ''VBZ''), (''Rust'', ''NN'')])\<rparr>"

definition hash_a :: "string list \<Rightarrow> string \<Rightarrow> nat" where
  "hash_a xs s = (if s = ''python'' then 0 else 1)"

definition hash_b :: "string list \<Rightarrow> string \<Rightarrow> nat" where
  "hash_b xs s = (if s = ''python'' then 1 else 0)"

definition hash_c :: "string list \<Rightarrow> string \<Rightarrow> nat" where
  "hash_c xs s = (if s = ''python'' then 0 else if s = ''rust'' then 1 else length xs)"

definition persona_rust_python :: persona where
  "persona_rust_python =
     update_persona
       (update_persona (fst (create_new_persona empty_fs ''u1''))
          (signal_with_topics [''rust'', ''python'']))
       (signal_with_topics [''python''])"

definition hidden_fs :: filesystem where
  "hidden_fs =
     \<lparr>dirs = {''personas''},
      files = [''personas/u1_persona.json'' \<mapsto> json_dump persona_rust_python],
      denied = {''personas/u1_persona.json''}\<rparr>"

definition loadable_fs :: filesystem where
  "loadable_fs =
     \<lparr>dirs = {''personas''},
      files = [''personas/u1_persona.json'' \<mapsto> json_dump persona_rust_python],
      denied = {}\<rparr>"

definition no_access_fs :: filesystem where
  "no_access_fs = \<lparr>dirs = {}, files = Map.empty, denied = {''personas''}\<rparr>"

section \<open>What one fold does to each field\<close>

lemma sentiment_history_update:
  "sentiment_history (emotional_state (update_persona p bd)) =
     append_capped (sentiment_history (emotional_state p)) (polarity (emotion bd))"
  by (simp add: update_persona_def Let_def)

lemma speed_history_update:
  "speed_history (behavioral_patterns (update_persona p bd)) =
     append_capped (speed_history (behavioral_patterns p)) (speed_map_get (typing_speed bd))"
  by (simp add: update_persona_def Let_def)

lemma length_history_update:
  "length_history (behavioral_patterns (update_persona p bd)) =
     append_capped (length_history (behavioral_patterns p)) (message_length bd)"
  by (simp add: update_persona_def Let_def)

lemma interaction_count_update:
  "interaction_count (update_persona p bd) = interaction_count p + 1"
  by (simp add: update_persona_def Let_def)

lemma topic_interests_update:
  "topic_interests (contextual_preferences (update_persona p bd)) =
     foldl bump_topic (topic_interests (contextual_preferences p)) (topics bd)"
  by (simp add: update_persona_def Let_def)

section \<open>History lengths\<close>

lemma length_append_capped_min:
  "length h = min n HISTORY_LENGTH \<Longrightarrow> length (append_capped h x) = min (Suc n) HISTORY_LENGTH"
  by (auto simp: append_capped_def Let_def HISTORY_LENGTH_def min_def)

text \<open>
  C1. After any sequence of folds into a freshly created persona, each of the three
  histories has as many entries as there were folds, at most 10, and \<open>interaction_count\<close>
  is the number of folds.
\<close>

theorem history_lengths_after_folds:
  "length (sentiment_history (emotional_state
      (foldl update_persona (fst (create_new_persona fs uid)) sigs))) = min (length sigs) 10
   \<and> length (speed_history (behavioral_patterns
      (foldl update_persona (fst (create_new_persona fs uid)) sigs))) = min (length sigs) 10
   \<and> length (length_history (behavioral_patterns
      (foldl update_persona (fst (create_new_persona fs uid)) sigs))) = min (length sigs) 10
   \<and> interaction_count (foldl update_persona (fst (create_new_persona fs uid)) sigs)
       = int (length sigs)"
proof (induction sigs rule: rev_induct)
  case Nil
  show ?case by (simp add: create_new_persona_def Let_def)
next
  case (snoc bd sigs)
  have step: "\<And>h x. length h = min (length sigs) 10 \<Longrightarrow>
      length (append_capped h x) = min (length (sigs @ [bd])) 10"
    using length_append_capped_min[where n = "length sigs"]
    by (simp add: HISTORY_LENGTH_def)
  from snoc show ?case
    by (simp only: foldl_append foldl.simps sentiment_history_update speed_history_update
        length_history_update interaction_count_update step) simp
qed

section \<open>The average message length\<close>

lemma append_capped_not_Nil: "append_capped h x \<noteq> []"
  by (cases h) (auto simp: append_capped_def Let_def HISTORY_LENGTH_def)

lemma avg_message_length_update:
  "avg_message_length (behavioral_patterns (update_persona p bd)) =
     py_round (of_int (sum_list (length_history (behavioral_patterns (update_persona p bd))))
               / of_nat (length (length_history (behavioral_patterns (update_persona p bd))))) 1"
  by (simp add: update_persona_def Let_def append_capped_not_Nil)

lemma length_history_foldl:
  "length_history (behavioral_patterns (foldl update_persona p sigs)) =
     foldl append_capped (length_history (behavioral_patterns p)) (map message_length sigs)"
  by (induction sigs arbitrary: p) (simp_all add: length_history_update)

lemma foldl_update_persona_last:
  "sigs \<noteq> [] \<Longrightarrow>
     foldl update_persona p sigs = update_persona (foldl update_persona p (butlast sigs)) (last sigs)"
  by (induction sigs rule: rev_induct) simp_all

text \<open>
  C2. After every fold \<open>avg_message_length\<close> is \<open>round(mean(length_history), 1)\<close> of the
  history the fold leaves, and that history is the old one with the new length appended
  and its oldest entry dropped when it would hold more than 10. Folding signals with
  message lengths 1 to 11 into a fresh persona leaves the lengths 2 to 11 and the
  average 6.5.
\<close>

theorem avg_message_length_is_rounded_mean:
  "avg_message_length (behavioral_patterns (update_persona p bd)) =
     py_round (of_int (sum_list (length_history (behavioral_patterns (update_persona p bd))))
               / of_nat (length (length_history (behavioral_patterns (update_persona p bd))))) 1
   \<and> length_history (behavioral_patterns (update_persona p bd)) =
       (if length (length_history (behavioral_patterns p) @ [message_length bd]) > 10
        then tl (length_history (behavioral_patterns p) @ [message_length bd])
        else length_history (behavioral_patterns p) @ [message_length bd])
   \<and> (map message_length sigs = [1, 2, 3, 4, 5, 6, 7, 8, 9, 10, 11] \<longrightarrow>
        length_history (behavioral_patterns
          (foldl update_persona (fst (create_new_persona fs uid)) sigs))
          = [2, 3, 4, 5, 6, 7, 8, 9, 10, 11]
        \<and> avg_message_length (behavioral_patterns
          (foldl update_persona (fst (create_new_persona fs uid)) sigs)) = 13 / 2)"
proof (intro conjI impI)
  show "avg_message_length (behavioral_patterns (update_persona p bd)) =
     py_round (of_int (sum_list (length_history (behavioral_patterns (update_persona p bd))))
               / of_nat (length (length_history (behavioral_patterns (update_persona p bd))))) 1"
    by (rule avg_message_length_update)
next
  show "length_history (behavioral_patterns (update_persona p bd)) =
       (if length (length_history (behavioral_patterns p) @ [message_length bd]) > 10
        then tl (length_history (behavioral_patterns p) @ [message_length bd])
        else length_history (behavioral_patterns p) @ [message_length bd])"
    by (simp add: length_history_update append_capped_def Let_def HISTORY_LENGTH_def)
next
  assume m: "map message_length sigs = [1, 2, 3, 4, 5, 6, 7, 8, 9, 10, 11]"
  let ?q = "foldl update_persona (fst (create_new_persona fs uid)) sigs"
  have fresh: "length_history (behavioral_patterns (fst (create_new_persona fs uid))) = []"
    by (simp add: create_new_persona_def Let_def)
  show h: "length_history (behavioral_patterns ?q) = [2, 3, 4, 5, 6, 7, 8, 9, 10, 11]"
    by (simp add: length_history_foldl m fresh append_capped_def HISTORY_LENGTH_def)
  from m have ne: "sigs \<noteq> []" by auto
  have "avg_message_length (behavioral_patterns ?q) =
      py_round (of_int (sum_list (length_history (behavioral_patterns ?q)))
               / of_nat (length (length_history (behavioral_patterns ?q)))) 1"
    using avg_message_length_update foldl_update_persona_last[OF ne] by metis
  also have "\<dots> = 13 / 2"
    by (simp add: h py_round_def round_half_even_def)
  finally show "avg_message_length (behavioral_patterns ?q) = 13 / 2" .
qed

theorem avg_message_length_is_rounded_mean_witness:
  "map message_length (map signal_of_length [1, 2, 3, 4, 5, 6, 7, 8, 9, 10, 11])
      = [1, 2, 3, 4, 5, 6, 7, 8, 9, 10, 11]
   \<and> length_history (behavioral_patterns
       (foldl update_persona (fst (create_new_persona empty_fs ''u1''))
          (map signal_of_length [1, 2, 3, 4, 5, 6, 7, 8, 9, 10, 11])))
      = [2, 3, 4, 5, 6, 7, 8, 9, 10, 11]
   \<and> avg_message_length (behavioral_patterns
       (foldl update_persona (fst (create_new_persona empty_fs ''u1''))
          (map signal_of_length [1, 2, 3, 4, 5, 6, 7, 8, 9, 10, 11]))) = 13 / 2"
proof -
  have m: "map message_length (map signal_of_length [1, 2, 3, 4, 5, 6, 7, 8, 9, 10, 11])
      = [1, 2, 3, 4, 5, 6, 7, 8, 9, 10, 11]"
    by (simp add: signal_of_length_def)
  from avg_message_length_is_rounded_mean[THEN conjunct2, THEN conjunct2, THEN mp, OF m] m
  show ?thesis by blast
qed


section \<open>The typing-speed bucket\<close>

lemma typing_speed_analyze_behavior:
  "typing_speed (analyze_behavior tb h txt e) = analyze_typing_speed e"
  by (simp add: analyze_behavior_def)

text \<open>
  C3. The typing-speed bucket of a signal follows the half-open intervals: below 2
  seconds \<open>very_fast\<close>, from 2 to below 5 \<open>fast\<close>, from 5 to below 15 \<open>moderate\<close>, from 15
  on \<open>slow\<close>. A negative elapsed time gets the bucket of 0, which is \<open>very_fast\<close>; the
  function has no failing branch.
\<close>

theorem typing_speed_buckets:
  "(e < 0 \<longrightarrow> typing_speed (analyze_behavior tb h txt e) = ''very_fast'')
   \<and> (0 \<le> e \<and> e < 2 \<longrightarrow> typing_speed (analyze_behavior tb h txt e) = ''very_fast'')
   \<and> (2 \<le> e \<and> e < 5 \<longrightarrow> typing_speed (analyze_behavior tb h txt e) = ''fast'')
   \<and> (5 \<le> e \<and> e < 15 \<longrightarrow> typing_speed (analyze_behavior tb h txt e) = ''moderate'')
   \<and> (15 \<le> e \<longrightarrow> typing_speed (analyze_behavior tb h txt e) = ''slow'')
   \<and> typing_speed (analyze_behavior tb h txt e)
       = typing_speed (analyze_behavior tb h txt (max e 0))"
  by (simp add: typing_speed_analyze_behavior analyze_typing_speed_def max_def)

theorem typing_speed_buckets_witness:
  "typing_speed (analyze_behavior (tb_const 0) (\<lambda>_ _. 0) ''hello'' (- 1)) = ''very_fast''
   \<and> typing_speed (analyze_behavior (tb_const 0) (\<lambda>_ _. 0) ''hello'' 0) = ''very_fast''
   \<and> typing_speed (analyze_behavior (tb_const 0) (\<lambda>_ _. 0) ''hello'' 2) = ''fast''
   \<and> typing_speed (analyze_behavior (tb_const 0) (\<lambda>_ _. 0) ''hello'' 5) = ''moderate''
   \<and> typing_speed (analyze_behavior (tb_const 0) (\<lambda>_ _. 0) ''hello'' 15) = ''slow''"
proof -
  have a: "(- 1 :: rat) < 0" and b: "(0 :: rat) \<le> 0 \<and> (0 :: rat) < 2"
    and c: "(2 :: rat) \<le> 2 \<and> (2 :: rat) < 5" and d: "(5 :: rat) \<le> 5 \<and> (5 :: rat) < 15"
    and e: "(15 :: rat) \<le> 15"
    by simp_all
  note t = typing_speed_buckets[of _ "tb_const 0" "\<lambda>_ _. 0" "''hello''"]
  have "typing_speed (analyze_behavior (tb_const 0) (\<lambda>_ _. 0) ''hello'' (- 1)) = ''very_fast''"
    by (rule t[THEN conjunct1, THEN mp, OF a])
  moreover have "typing_speed (analyze_behavior (tb_const 0) (\<lambda>_ _. 0) ''hello'' 0) = ''very_fast''"
    by (rule t[THEN conjunct2, THEN conjunct1, THEN mp, OF b])
  moreover have "typing_speed (analyze_behavior (tb_const 0) (\<lambda>_ _. 0) ''hello'' 2) = ''fast''"
    by (rule t[THEN conjunct2, THEN conjunct2, THEN conjunct1, THEN mp, OF c])
  moreover have "typing_speed (analyze_behavior (tb_const 0) (\<lambda>_ _. 0) ''hello'' 5) = ''moderate''"
    by (rule t[THEN conjunct2, THEN conjunct2, THEN conjunct2, THEN conjunct1, THEN mp, OF d])
  moreover have "typing_speed (analyze_behavior (tb_const 0) (\<lambda>_ _. 0) ''hello'' 15) = ''slow''"
    by (rule t[THEN conjunct2, THEN conjunct2, THEN conjunct2, THEN conjunct2, THEN conjunct1,
          THEN mp, OF e])
  ultimately show ?thesis by (intro conjI)
qed

section \<open>The sentiment label\<close>

text \<open>
  C4. The label is \<open>positive\<close> exactly when the classifier's polarity is above 0.3,
  \<open>negative\<close> exactly when it is below -0.3 and \<open>neutral\<close> exactly in between; a polarity
  of exactly 0.3 or exactly -0.3 is \<open>neutral\<close>.
\<close>

theorem sentiment_label_thresholds:
  "(sentiment (detect_emotion tb txt) = ''positive'') = (tb_polarity tb txt > 3 / 10)
   \<and> (sentiment (detect_emotion tb txt) = ''negative'') = (tb_polarity tb txt < - (3 / 10))
   \<and> (sentiment (detect_emotion tb txt) = ''neutral'')
       = (- (3 / 10) \<le> tb_polarity tb txt \<and> tb_polarity tb txt \<le> 3 / 10)
   \<and> sentiment (detect_emotion (tb_const (3 / 10)) txt) = ''neutral''
   \<and> sentiment (detect_emotion (tb_const (- (3 / 10))) txt) = ''neutral''"
  by (auto simp: detect_emotion_def sentiment_of_def Let_def tb_const_def)

lemma py_round2_just_above:
  assumes "3 / 10 < p" "p < 61 / 200"
  shows "py_round p 2 = 3 / 10"
proof -
  have fl: "\<lfloor>p * 100\<rfloor> = 30"
    using assms by (intro floor_unique) auto
  show ?thesis
    using assms by (simp add: py_round_def round_half_even_def Let_def fl)
qed

lemma py_round2_just_below:
  assumes "- (61 / 200) < p" "p < - (3 / 10)"
  shows "py_round p 2 = - (3 / 10)"
proof -
  have fl: "\<lfloor>p * 100\<rfloor> = - 31"
    using assms by (intro floor_unique) auto
  show ?thesis
    using assms by (simp add: py_round_def round_half_even_def Let_def fl)
qed

text \<open>
  C10. The label is computed from the classifier's polarity as it is, the \<open>polarity\<close>
  field is that polarity rounded to two decimals. A polarity strictly between 0.3 and
  0.305 therefore gives the field 0.3 with the label \<open>positive\<close>, and one strictly between
  -0.305 and -0.3 the field -0.3 with the label \<open>negative\<close>, although the thresholds applied
  to the field itself give \<open>neutral\<close>.
\<close>

theorem label_not_derivable_from_rounded_polarity:
  "sentiment (detect_emotion tb txt) = sentiment_of (tb_polarity tb txt)
   \<and> polarity (detect_emotion tb txt) = py_round (tb_polarity tb txt) 2
   \<and> (3 / 10 < tb_polarity tb txt \<and> tb_polarity tb txt < 61 / 200 \<longrightarrow>
        detect_emotion tb txt = \<lparr>polarity = 3 / 10, sentiment = ''positive''\<rparr>
        \<and> sentiment_of (polarity (detect_emotion tb txt)) = ''neutral'')
   \<and> (- (61 / 200) < tb_polarity tb txt \<and> tb_polarity tb txt < - (3 / 10) \<longrightarrow>
        detect_emotion tb txt = \<lparr>polarity = - (3 / 10), sentiment = ''negative''\<rparr>
        \<and> sentiment_of (polarity (detect_emotion tb txt)) = ''neutral'')"
  by (simp add: detect_emotion_def Let_def py_round2_just_above py_round2_just_below)
     (simp add: sentiment_of_def)

theorem label_not_derivable_from_rounded_polarity_witness:
  "detect_emotion (tb_const (38 / 125)) ''quite fine'' = \<lparr>polarity = 3 / 10, sentiment = ''positive''\<rparr>
   \<and> sentiment_of (polarity (detect_emotion (tb_const (38 / 125)) ''quite fine'')) = ''neutral''
   \<and> detect_emotion (tb_const (- (38 / 125))) ''quite poor'' = \<lparr>polarity = - (3 / 10), sentiment = ''negative''\<rparr>
   \<and> sentiment_of (polarity (detect_emotion (tb_const (- (38 / 125))) ''quite poor'')) = ''neutral''"
proof -
  have a: "3 / 10 < tb_polarity (tb_const (38 / 125)) ''quite fine''
     \<and> tb_polarity (tb_const (38 / 125)) ''quite fine'' < 61 / 200"
    by (simp add: tb_const_def)
  have b: "- (61 / 200) < tb_polarity (tb_const (- (38 / 125))) ''quite poor''
     \<and> tb_polarity (tb_const (- (38 / 125))) ''quite poor'' < - (3 / 10)"
    by (simp add: tb_const_def)
  note pos = label_not_derivable_from_rounded_polarity[THEN conjunct2, THEN conjunct2,
      THEN conjunct1, THEN mp, OF a]
  note neg = label_not_derivable_from_rounded_polarity[THEN conjunct2, THEN conjunct2,
      THEN conjunct2, THEN mp, OF b]
  from pos neg show ?thesis by (intro conjI) (erule conjunct1 conjunct2)+
qed


section \<open>Topic counts\<close>

lemma map_of_dict_set: "map_of (dict_set d k v) = (map_of d)(k \<mapsto> v)"
  by (induction d k v rule: dict_set.induct) (auto simp: fun_upd_twist)

lemma map_of_bump_topic:
  "map_of (bump_topic d t) = (map_of d)(t \<mapsto> dict_get d t 0 + 1)"
  by (simp add: bump_topic_def map_of_dict_set)

lemma dict_get_bump_topic:
  "dict_get (bump_topic d t) t' 0 = dict_get d t' 0 + (if t' = t then 1 else 0)"
  by (simp add: dict_get_def map_of_bump_topic)

lemma dom_bump_topic: "dom (map_of (bump_topic d t)) = insert t (dom (map_of d))"
  by (simp add: map_of_bump_topic)

lemma dict_get_foldl_bump:
  "dict_get (foldl bump_topic d ts) t 0 = dict_get d t 0 + int (count_list ts t)"
  by (induction ts arbitrary: d) (simp_all add: dict_get_bump_topic)

lemma dom_foldl_bump: "dom (map_of (foldl bump_topic d ts)) = dom (map_of d) \<union> set ts"
  by (induction ts arbitrary: d) (simp_all add: dom_bump_topic)

lemma count_list_distinct: "distinct ts \<Longrightarrow> count_list ts t = (if t \<in> set ts then 1 else 0)"
  by (induction ts) auto

lemma dict_get_fold_signals:
  "dict_get (topic_interests (contextual_preferences (foldl update_persona p sigs))) t 0 =
     dict_get (topic_interests (contextual_preferences p)) t 0
       + (\<Sum>s\<leftarrow>sigs. int (count_list (topics s) t))"
  by (induction sigs arbitrary: p) (simp_all add: topic_interests_update dict_get_foldl_bump)

lemma dom_fold_signals:
  "dom (map_of (topic_interests (contextual_preferences (foldl update_persona p sigs)))) =
     dom (map_of (topic_interests (contextual_preferences p))) \<union> (\<Union>s\<in>set sigs. set (topics s))"
  by (induction sigs arbitrary: p) (auto simp: topic_interests_update dom_foldl_bump)

lemma sum_count_distinct:
  "(\<And>s. s \<in> set sigs \<Longrightarrow> distinct (topics s)) \<Longrightarrow>
     (\<Sum>s\<leftarrow>sigs. int (count_list (topics s) t)) = int (length (filter (\<lambda>s. t \<in> set (topics s)) sigs))"
  by (induction sigs) (simp_all add: count_list_distinct)

text \<open>
  C5. When every signal carries its topics without duplicates, folding a sequence of
  signals raises the count of a topic by the number of signals that contain it, with no
  cap; from a fresh persona the count of a topic is exactly that number, and a topic is
  absent from \<open>topic_interests\<close> exactly when no signal contained it.
\<close>

theorem topic_interests_counts_signals:
  assumes "\<forall>s\<in>set sigs. distinct (topics s)"
  shows "dict_get (topic_interests (contextual_preferences (foldl update_persona p sigs))) t 0 =
           dict_get (topic_interests (contextual_preferences p)) t 0
             + int (length (filter (\<lambda>s. t \<in> set (topics s)) sigs))
         \<and> map_of (topic_interests (contextual_preferences
              (foldl update_persona (fst (create_new_persona fs uid)) sigs))) t =
             (if \<exists>s\<in>set sigs. t \<in> set (topics s)
              then Some (int (length (filter (\<lambda>s. t \<in> set (topics s)) sigs)))
              else None)"
proof
  from assms have d: "\<And>s. s \<in> set sigs \<Longrightarrow> distinct (topics s)" by blast
  show g: "dict_get (topic_interests (contextual_preferences (foldl update_persona p sigs))) t 0 =
           dict_get (topic_interests (contextual_preferences p)) t 0
             + int (length (filter (\<lambda>s. t \<in> set (topics s)) sigs))" for p
    by (simp add: dict_get_fold_signals sum_count_distinct[OF d])
  let ?p0 = "fst (create_new_persona fs uid)"
  let ?m = "map_of (topic_interests (contextual_preferences (foldl update_persona ?p0 sigs)))"
  have fresh: "topic_interests (contextual_preferences ?p0) = []"
    by (simp add: create_new_persona_def Let_def)
  have dm: "dom ?m = (\<Union>s\<in>set sigs. set (topics s))"
    by (simp add: dom_fold_signals fresh)
  show "?m t = (if \<exists>s\<in>set sigs. t \<in> set (topics s)
              then Some (int (length (filter (\<lambda>s. t \<in> set (topics s)) sigs)))
              else None)"
  proof (cases "\<exists>s\<in>set sigs. t \<in> set (topics s)")
    case True
    then have "t \<in> dom ?m" by (simp add: dm)
    then obtain c where c: "?m t = Some c" by blast
    then have "dict_get (topic_interests (contextual_preferences (foldl update_persona ?p0 sigs))) t 0 = c"
      by (simp add: dict_get_def)
    with g[of ?p0] have "c = int (length (filter (\<lambda>s. t \<in> set (topics s)) sigs))"
      by (simp add: fresh dict_get_def)
    with c True show ?thesis by simp
  next
    case False
    then have "t \<notin> dom ?m" by (simp add: dm)
    with False show ?thesis by (simp add: domIff)
  qed
qed

theorem topic_interests_counts_signals_witness:
  "map_of (topic_interests (contextual_preferences
      (foldl update_persona (fst (create_new_persona empty_fs ''u1''))
        [signal_with_topics [''python'', ''rust''], signal_with_topics [''python'']])))
     ''python'' = Some 2"
proof -
  have d: "\<forall>s\<in>set [signal_with_topics [''python'', ''rust''], signal_with_topics [''python'']].
      distinct (topics s)"
    by (simp add: signal_with_topics_def)
  show ?thesis
    using topic_interests_counts_signals[OF d, THEN conjunct2, of empty_fs "''u1''" "''python''"]
    by (simp add: signal_with_topics_def)
qed

section \<open>The top topics\<close>

lemma insertion_rank_nth:
  "distinct (map fst d) \<Longrightarrow> i < length d \<Longrightarrow> insertion_rank d (fst (d ! i)) = i"
proof (induction d arbitrary: i)
  case Nil
  then show ?case by simp
next
  case (Cons x d)
  show ?case
  proof (cases i)
    case 0
    then show ?thesis by (simp add: insertion_rank_def)
  next
    case (Suc j)
    with Cons.prems have j: "j < length d" and "fst x \<notin> fst ` set d" by auto
    then have "fst x \<noteq> fst (d ! j)" by (metis image_eqI nth_mem)
    with Cons.IH[of j] Cons.prems j Suc show ?thesis
      by (simp add: insertion_rank_def)
  qed
qed

lemma insertion_order_sorted:
  assumes "distinct (map fst d)"
  shows "sorted_wrt (\<lambda>a b. insertion_rank d (fst a) < insertion_rank d (fst b)) d"
  unfolding sorted_wrt_iff_nth_less
  using assms by (simp add: insertion_rank_nth)

lemma insort_key_keeps_ties:
  assumes "sorted_wrt (\<lambda>a b. f a < f b \<or> (f a = f b \<and> R a b)) ys"
    and "\<forall>y\<in>set ys. R x y"
  shows "sorted_wrt (\<lambda>a b. f a < f b \<or> (f a = f b \<and> R a b)) (insort_key f x ys)"
  using assms
proof (induction ys)
  case Nil
  then show ?case by simp
next
  case (Cons y ys)
  show ?case
  proof (cases "f x \<le> f y")
    case True
    with Cons.prems show ?thesis by (auto simp: set_insort_key) 
  next
    case False
    with Cons show ?thesis by (auto simp: set_insort_key)
  qed
qed

lemma sort_key_keeps_ties:
  "sorted_wrt R xs \<Longrightarrow>
     sorted_wrt (\<lambda>a b. f a < f b \<or> (f a = f b \<and> R a b)) (sort_key f xs)"
proof (induction xs)
  case Nil
  then show ?case by simp
next
  case (Cons x xs)
  then show ?case by (simp add: insort_key_keeps_ties)
qed

lemma sorted_by_count_desc_order:
  assumes "distinct (map fst d)"
  shows "sorted_wrt (ranks_before d) (sorted_by_count_desc d)"
proof -
  have "sorted_wrt (\<lambda>a b. - snd a < - snd b \<or> (- snd a = - snd b \<and>
      insertion_rank d (fst a) < insertion_rank d (fst b))) (sort_key (\<lambda>item. - snd item) d)"
    by (rule sort_key_keeps_ties[OF insertion_order_sorted[OF assms]])
  then show ?thesis
    by (simp add: sorted_by_count_desc_def ranks_before_def[abs_def])
qed

lemma sort_key_Nil_iff: "sort_key f xs = [] \<longleftrightarrow> xs = []"
  by (metis length_sort length_0_conv)

lemma two_topics:
  assumes "set ts = {a, b}" "distinct ts" "a \<noteq> b"
  shows "ts = [a, b] \<or> ts = [b, a]"
proof -
  from assms have "length ts = 2" by (metis distinct_card card_2_iff)
  then obtain x y where ts: "ts = [x, y]"
    by (metis (no_types, opaque_lifting) One_nat_def Suc_1 length_0_conv length_Suc_conv)
  with assms show ?thesis by (auto simp: doubleton_eq_iff)
qed

lemma fresh_topic_interests:
  "topic_interests (contextual_preferences (fst (create_new_persona fs uid))) = []"
  by (simp add: create_new_persona_def Let_def)

lemma keys_dict_set:
  "map fst (dict_set d k v) = (if k \<in> fst ` set d then map fst d else map fst d @ [k])"
  by (induction d k v rule: dict_set.induct) auto

lemma distinct_keys_bump_topic:
  "distinct (map fst d) \<Longrightarrow> distinct (map fst (bump_topic d t))"
  by (simp add: bump_topic_def keys_dict_set)

lemma distinct_keys_foldl_bump:
  "distinct (map fst d) \<Longrightarrow> distinct (map fst (foldl bump_topic d ts))"
  by (induction ts arbitrary: d) (simp_all add: distinct_keys_bump_topic)

lemma distinct_keys_fold_signals:
  "distinct (map fst (topic_interests (contextual_preferences p))) \<Longrightarrow>
     distinct (map fst (topic_interests (contextual_preferences (foldl update_persona p sigs))))"
  by (induction sigs arbitrary: p) (simp_all add: topic_interests_update distinct_keys_foldl_bump)

lemma distinct_keys_after_folds:
  "distinct (map fst (topic_interests (contextual_preferences
      (foldl update_persona (fst (create_new_persona fs uid)) sigs))))"
  by (rule distinct_keys_fold_signals) (simp add: fresh_topic_interests)

lemma hint_python_first:
  assumes "topics s1 = [''python'', ''rust'']" "topics s2 = [''python'']"
  shows "topic_hint (update_persona (update_persona (fst (create_new_persona fs uid)) s1) s2)
          = ''The user is often interested in topics like python, rust.''"
proof -
  have "topic_interests (contextual_preferences
       (update_persona (update_persona (fst (create_new_persona fs uid)) s1) s2))
      = [(''python'', 2), (''rust'', 1)]"
    by (simp add: topic_interests_update fresh_topic_interests assms bump_topic_def dict_get_def)
  then show ?thesis
    by (simp add: topic_hint_def Let_def sorted_by_count_desc_def)
qed

lemma hint_rust_first:
  assumes "topics s1 = [''rust'', ''python'']" "topics s2 = [''python'']"
  shows "topic_hint (update_persona (update_persona (fst (create_new_persona fs uid)) s1) s2)
          = ''The user is often interested in topics like python, rust.''"
proof -
  have "topic_interests (contextual_preferences
       (update_persona (update_persona (fst (create_new_persona fs uid)) s1) s2))
      = [(''rust'', 1), (''python'', 2)]"
    by (simp add: topic_interests_update fresh_topic_interests assms bump_topic_def dict_get_def)
  then show ?thesis
    by (simp add: topic_hint_def Let_def sorted_by_count_desc_def)
qed

text \<open>
  C6. The summary and the topic hint use the same three topics: the first three of the
  items sorted by descending count, items of equal count staying in the order in which
  their topics were first inserted into \<open>topic_interests\<close> (for a dict, whose keys are
  distinct, and so for every persona reached by folds from a fresh one). The hint is the
  empty string when \<open>topic_interests\<close> is empty. After the topics python and rust (in either order)
  and then python alone, the hint names python before rust.
\<close>

theorem top_topics_order:
  "summary_top_topics p = take 3 (sorted_by_count_desc (topic_interests (contextual_preferences p)))
   \<and> topic_hint p =
       (if topic_interests (contextual_preferences p) = [] then []
        else ''The user is often interested in topics like '' @
             join '', '' (map fst (summary_top_topics p)) @ ''.'')
   \<and> mset (sorted_by_count_desc (topic_interests (contextual_preferences p)))
       = mset (topic_interests (contextual_preferences p))
   \<and> (distinct (map fst (topic_interests (contextual_preferences p))) \<longrightarrow>
        sorted_wrt (ranks_before (topic_interests (contextual_preferences p)))
          (sorted_by_count_desc (topic_interests (contextual_preferences p))))
   \<and> sorted_wrt
        (ranks_before (topic_interests (contextual_preferences
           (foldl update_persona (fst (create_new_persona fs uid)) sigs))))
        (sorted_by_count_desc (topic_interests (contextual_preferences
           (foldl update_persona (fst (create_new_persona fs uid)) sigs))))
   \<and> (set (topics s1) = {''python'', ''rust''} \<and> distinct (topics s1) \<and> topics s2 = [''python''] \<longrightarrow>
        topic_hint (update_persona (update_persona (fst (create_new_persona fs uid)) s1) s2)
          = ''The user is often interested in topics like python, rust.'')"
proof (intro conjI impI)
  show "sorted_wrt
        (ranks_before (topic_interests (contextual_preferences
           (foldl update_persona (fst (create_new_persona fs uid)) sigs))))
        (sorted_by_count_desc (topic_interests (contextual_preferences
           (foldl update_persona (fst (create_new_persona fs uid)) sigs))))"
    by (rule sorted_by_count_desc_order[OF distinct_keys_after_folds])
next
  show "summary_top_topics p = take 3 (sorted_by_count_desc (topic_interests (contextual_preferences p)))"
    by (simp add: summary_top_topics_def Let_def sorted_by_count_desc_def)
  then show "topic_hint p =
       (if topic_interests (contextual_preferences p) = [] then []
        else ''The user is often interested in topics like '' @
             join '', '' (map fst (summary_top_topics p)) @ ''.'')"
    by (simp add: topic_hint_def Let_def sorted_by_count_desc_def sort_key_Nil_iff)
  show "mset (sorted_by_count_desc (topic_interests (contextual_preferences p)))
       = mset (topic_interests (contextual_preferences p))"
    by (simp add: sorted_by_count_desc_def)
next
  assume "distinct (map fst (topic_interests (contextual_preferences p)))"
  then show "sorted_wrt (ranks_before (topic_interests (contextual_preferences p)))
          (sorted_by_count_desc (topic_interests (contextual_preferences p)))"
    by (rule sorted_by_count_desc_order)
next
  assume a: "set (topics s1) = {''python'', ''rust''} \<and> distinct (topics s1) \<and> topics s2 = [''python'']"
  then have s2: "topics s2 = [''python'']" by simp
  from a have "topics s1 = [''python'', ''rust''] \<or> topics s1 = [''rust'', ''python'']"
    using two_topics[of "topics s1" "''python''" "''rust''"] by simp
  then show "topic_hint (update_persona (update_persona (fst (create_new_persona fs uid)) s1) s2)
          = ''The user is often interested in topics like python, rust.''"
  proof
    assume "topics s1 = [''python'', ''rust'']"
    then show ?thesis by (rule hint_python_first[OF _ s2])
  next
    assume "topics s1 = [''rust'', ''python'']"
    then show ?thesis by (rule hint_rust_first[OF _ s2])
  qed
qed

theorem top_topics_order_witness:
  "distinct (map fst (topic_interests (contextual_preferences persona_rust_python)))
   \<and> sorted_wrt (ranks_before (topic_interests (contextual_preferences persona_rust_python)))
        (sorted_by_count_desc (topic_interests (contextual_preferences persona_rust_python)))
   \<and> topic_hint persona_rust_python
       = ''The user is often interested in topics like python, rust.''"
proof -
  have ti: "topic_interests (contextual_preferences persona_rust_python)
      = [(''rust'', 1), (''python'', 2)]"
    by (simp add: persona_rust_python_def topic_interests_update fresh_topic_interests
        signal_with_topics_def bump_topic_def dict_get_def)
  have d: "distinct (map fst (topic_interests (contextual_preferences persona_rust_python)))"
    by (simp add: ti)
  have e: "set (topics (signal_with_topics [''rust'', ''python''])) = {''python'', ''rust''}
      \<and> distinct (topics (signal_with_topics [''rust'', ''python'']))
      \<and> topics (signal_with_topics [''python'']) = [''python'']"
    by (auto simp: signal_with_topics_def)
  note ord = top_topics_order[THEN conjunct2, THEN conjunct2, THEN conjunct2, THEN conjunct1,
      THEN mp, OF d]
  note hint = top_topics_order[THEN conjunct2, THEN conjunct2, THEN conjunct2, THEN conjunct2,
      THEN conjunct2, THEN mp, OF e, of empty_fs "''u1''", folded persona_rust_python_def]
  from d ord hint show ?thesis by (intro conjI)
qed

section \<open>Two runs of the analyzer\<close>

lemma map_of_eqI_dict_get:
  assumes "dom (map_of d1) = dom (map_of d2)"
    and "\<And>t. dict_get d1 t (0::int) = dict_get d2 t 0"
  shows "map_of d1 = map_of d2"
proof
  fix t
  show "map_of d1 t = map_of d2 t"
  proof (cases "map_of d1 t")
    case None
    with assms(1) show ?thesis by (metis domIff)
  next
    case (Some c)
    with assms(1) obtain c' where "map_of d2 t = Some c'" by (metis domIff option.exhaust option.distinct(1))
    with Some assms(2)[of t] show ?thesis by (simp add: dict_get_def)
  qed
qed

lemma foldl_bump_same_set:
  assumes "set ts1 = set ts2" "distinct ts1" "distinct ts2"
  shows "map_of (foldl bump_topic d ts1) = map_of (foldl bump_topic d ts2)"
  by (rule map_of_eqI_dict_get)
     (simp_all add: dom_foldl_bump dict_get_foldl_bump count_list_distinct assms)

lemma insort_key_agree:
  "h1 x = h2 x \<Longrightarrow> (\<And>y. y \<in> set ys \<Longrightarrow> h1 y = h2 y) \<Longrightarrow>
     insort_key h1 x ys = insort_key h2 x ys"
  by (induction ys) simp_all

lemma sort_key_agree:
  "(\<And>x. x \<in> set xs \<Longrightarrow> h1 x = h2 x) \<Longrightarrow> sort_key h1 xs = sort_key h2 xs"
proof (induction xs)
  case Nil
  show ?case by simp
next
  case (Cons x xs)
  then have "sort_key h1 xs = sort_key h2 xs" by simp
  moreover have "insort_key h1 x (sort_key h2 xs) = insort_key h2 x (sort_key h2 xs)"
    using Cons.prems by (intro insort_key_agree) simp_all
  ultimately show ?case by simp
qed

lemma map_context_sort:
  "map_context tb h txt = sort_key (h (found_topics tb txt)) (remdups (found_topics tb txt))"
  by (simp add: map_context_def list_of_set_def Let_def)

lemma set_map_context:
  "set (map_context tb h1 txt) = set (map_context tb h2 txt)"
  by (simp add: map_context_sort)

lemma distinct_map_context: "distinct (map_context tb h txt)"
  by (simp add: map_context_sort)

text \<open>
  C7, as amended. With the classifier fixed, two runs of \<open>analyze_behavior\<close> on the same
  text and elapsed time return the same typing speed, emotion and message length and
  the same topics as a set, without duplicates, and folding either signal into a
  persona gives the same topic counts. The two signals are equal exactly when their
  \<open>topics\<close> lists are in the same order, and they are when the sets of the two runs give
  the topics of the text the same places.
\<close>

theorem analyze_behavior_up_to_topic_order:
  "typing_speed (analyze_behavior tb h1 txt e) = typing_speed (analyze_behavior tb h2 txt e)
   \<and> emotion (analyze_behavior tb h1 txt e) = emotion (analyze_behavior tb h2 txt e)
   \<and> message_length (analyze_behavior tb h1 txt e) = message_length (analyze_behavior tb h2 txt e)
   \<and> set (topics (analyze_behavior tb h1 txt e)) = set (topics (analyze_behavior tb h2 txt e))
   \<and> distinct (topics (analyze_behavior tb h1 txt e))
   \<and> map_of (topic_interests (contextual_preferences
         (update_persona p (analyze_behavior tb h1 txt e))))
       = map_of (topic_interests (contextual_preferences
         (update_persona p (analyze_behavior tb h2 txt e))))
   \<and> (analyze_behavior tb h1 txt e = analyze_behavior tb h2 txt e)
       = (topics (analyze_behavior tb h1 txt e) = topics (analyze_behavior tb h2 txt e))
   \<and> ((\<forall>t\<in>set (found_topics tb txt).
          h1 (found_topics tb txt) t = h2 (found_topics tb txt) t) \<longrightarrow>
        analyze_behavior tb h1 txt e = analyze_behavior tb h2 txt e)"
proof (intro conjI impI)
  show "map_of (topic_interests (contextual_preferences
         (update_persona p (analyze_behavior tb h1 txt e))))
       = map_of (topic_interests (contextual_preferences
         (update_persona p (analyze_behavior tb h2 txt e))))"
    unfolding topic_interests_update
    by (rule foldl_bump_same_set)
       (simp_all add: analyze_behavior_def set_map_context[of tb h1 _ h2] distinct_map_context)
next
  show "(analyze_behavior tb h1 txt e = analyze_behavior tb h2 txt e)
       = (topics (analyze_behavior tb h1 txt e) = topics (analyze_behavior tb h2 txt e))"
    by (simp add: analyze_behavior_def)
next
  assume agree: "\<forall>t\<in>set (found_topics tb txt).
      h1 (found_topics tb txt) t = h2 (found_topics tb txt) t"
  have "sort_key (h1 (found_topics tb txt)) (remdups (found_topics tb txt))
      = sort_key (h2 (found_topics tb txt)) (remdups (found_topics tb txt))"
    by (rule sort_key_agree) (simp add: agree)
  then show "analyze_behavior tb h1 txt e = analyze_behavior tb h2 txt e"
    by (simp add: analyze_behavior_def map_context_sort)
qed (simp_all add: analyze_behavior_def set_map_context[of tb h1 _ h2] distinct_map_context)

lemma found_topics_two_nouns:
  "found_topics tb_two_nouns ''Python beats Rust'' = [''python'', ''rust'']"
proof -
  have low: "lower ''Python'' = ''python''" "lower ''Rust'' = ''rust''"
    by code_simp+
  show ?thesis
    by (simp add: found_topics_def tb_two_nouns_def low startswith_def common_words_def)
qed

theorem analyze_behavior_up_to_topic_order_witness:
  "hash_a [''python'', ''rust''] ''python'' = hash_c [''python'', ''rust''] ''python''
   \<and> hash_a [''python'', ''rust''] ''rust'' = hash_c [''python'', ''rust''] ''rust''
   \<and> hash_a [''python'', ''rust''] ''go'' \<noteq> hash_c [''python'', ''rust''] ''go''
   \<and> analyze_behavior tb_two_nouns hash_a ''Python beats Rust'' 1
       = analyze_behavior tb_two_nouns hash_c ''Python beats Rust'' 1"
proof -
  have h: "\<forall>t\<in>set (found_topics tb_two_nouns ''Python beats Rust'').
      hash_a (found_topics tb_two_nouns ''Python beats Rust'') t
        = hash_c (found_topics tb_two_nouns ''Python beats Rust'') t"
    by (simp add: found_topics_two_nouns hash_a_def hash_c_def)
  note eq = analyze_behavior_up_to_topic_order[where ?h1.0 = hash_a and ?h2.0 = hash_c
      and tb = tb_two_nouns, THEN conjunct2, THEN conjunct2, THEN conjunct2,
      THEN conjunct2, THEN conjunct2, THEN conjunct2, THEN conjunct2, THEN mp, OF h]
  have "hash_a [''python'', ''rust''] ''python'' = hash_c [''python'', ''rust''] ''python''"
    "hash_a [''python'', ''rust''] ''rust'' = hash_c [''python'', ''rust''] ''rust''"
    "hash_a [''python'', ''rust''] ''go'' \<noteq> hash_c [''python'', ''rust''] ''go''"
    by (simp_all add: hash_a_def hash_c_def)
  with eq show ?thesis by (intro conjI)
qed

text \<open>
  C7 as stated fails: in two processes whose sets place python and rust in different
  orders, the same text gives two different signals, and folding them into a fresh
  persona gives two insertion orders and two topic hints.
\<close>

theorem analyze_behavior_order_counterexample:
  "topics (analyze_behavior tb_two_nouns hash_a ''Python beats Rust'' 1) = [''python'', ''rust'']
   \<and> topics (analyze_behavior tb_two_nouns hash_b ''Python beats Rust'' 1) = [''rust'', ''python'']
   \<and> analyze_behavior tb_two_nouns hash_a ''Python beats Rust'' 1
       \<noteq> analyze_behavior tb_two_nouns hash_b ''Python beats Rust'' 1
   \<and> topic_interests (contextual_preferences (update_persona (fst (create_new_persona empty_fs ''u1''))
        (analyze_behavior tb_two_nouns hash_a ''Python beats Rust'' 1)))
       = [(''python'', 1), (''rust'', 1)]
   \<and> topic_interests (contextual_preferences (update_persona (fst (create_new_persona empty_fs ''u1''))
        (analyze_behavior tb_two_nouns hash_b ''Python beats Rust'' 1)))
       = [(''rust'', 1), (''python'', 1)]
   \<and> topic_hint (update_persona (fst (create_new_persona empty_fs ''u1''))
        (analyze_behavior tb_two_nouns hash_a ''Python beats Rust'' 1))
       = ''The user is often interested in topics like python, rust.''
   \<and> topic_hint (update_persona (fst (create_new_persona empty_fs ''u1''))
        (analyze_behavior tb_two_nouns hash_b ''Python beats Rust'' 1))
       = ''The user is often interested in topics like rust, python.''"
proof -
  have a: "topics (analyze_behavior tb_two_nouns hash_a ''Python beats Rust'' 1) = [''python'', ''rust'']"
    by (simp add: analyze_behavior_def map_context_sort found_topics_two_nouns hash_a_def)
  have b: "topics (analyze_behavior tb_two_nouns hash_b ''Python beats Rust'' 1) = [''rust'', ''python'']"
    by (simp add: analyze_behavior_def map_context_sort found_topics_two_nouns hash_b_def)
  have fresh: "topic_interests (contextual_preferences (fst (create_new_persona empty_fs ''u1''))) = []"
    by (simp add: create_new_persona_def Let_def)
  have ta: "topic_interests (contextual_preferences (update_persona (fst (create_new_persona empty_fs ''u1''))
        (analyze_behavior tb_two_nouns hash_a ''Python beats Rust'' 1)))
       = [(''python'', 1), (''rust'', 1)]"
    by (simp add: topic_interests_update a fresh bump_topic_def dict_get_def)
  have tb: "topic_interests (contextual_preferences (update_persona (fst (create_new_persona empty_fs ''u1''))
        (analyze_behavior tb_two_nouns hash_b ''Python beats Rust'' 1)))
       = [(''rust'', 1), (''python'', 1)]"
    by (simp add: topic_interests_update b fresh bump_topic_def dict_get_def)
  have ne: "analyze_behavior tb_two_nouns hash_a ''Python beats Rust'' 1
       \<noteq> analyze_behavior tb_two_nouns hash_b ''Python beats Rust'' 1"
  proof
    assume "analyze_behavior tb_two_nouns hash_a ''Python beats Rust'' 1
       = analyze_behavior tb_two_nouns hash_b ''Python beats Rust'' 1"
    then have "topics (analyze_behavior tb_two_nouns hash_a ''Python beats Rust'' 1)
       = topics (analyze_behavior tb_two_nouns hash_b ''Python beats Rust'' 1)"
      by simp
    then show False by (simp add: a b)
  qed
  have ha: "topic_hint (update_persona (fst (create_new_persona empty_fs ''u1''))
        (analyze_behavior tb_two_nouns hash_a ''Python beats Rust'' 1))
       = ''The user is often interested in topics like python, rust.''"
    by (simp add: topic_hint_def Let_def ta sorted_by_count_desc_def)
  have hb: "topic_hint (update_persona (fst (create_new_persona empty_fs ''u1''))
        (analyze_behavior tb_two_nouns hash_b ''Python beats Rust'' 1))
       = ''The user is often interested in topics like rust, python.''"
    by (simp add: topic_hint_def Let_def tb sorted_by_count_desc_def)
  from a b ne ta tb ha hb show ?thesis by (intro conjI)
qed


section \<open>Loading a persona\<close>

lemma filepath_u1: "get_persona_filepath ''u1'' = ''personas/u1_persona.json''"
  by (simp add: get_persona_filepath_def os_path_join_def startswith_def PERSONA_DIR_def)

lemma open_read_Inr_exists:
  "open_read fs path = Inr contents \<Longrightarrow> os_path_exists fs path"
  by (auto simp: open_read_def os_path_exists_def split: if_splits option.splits)

lemma open_read_not_ProfileLoadError: "open_read fs path \<noteq> Inl ProfileLoadError"
  by (simp add: open_read_def split: option.splits)

lemma json_load_not_ProfileLoadError: "json_load contents \<noteq> Inl ProfileLoadError"
  by (simp add: json_load_def split: file_text.splits)

lemma create_new_persona_error_not_ProfileLoadError:
  "create_new_persona_error fs \<noteq> Some ProfileLoadError"
  by (simp add: create_new_persona_error_def os_makedirs_error_def)

lemma user_id_update: "user_id (update_persona p bd) = user_id p"
  by (simp add: update_persona_def Let_def)

lemma user_id_fresh: "user_id (fst (create_new_persona fs uid)) = uid"
  by (simp add: create_new_persona_def Let_def)

lemma topic_interests_persona_rust_python:
  "topic_interests (contextual_preferences persona_rust_python) = [(''rust'', 1), (''python'', 2)]"
  by (simp add: persona_rust_python_def topic_interests_update fresh_topic_interests
      signal_with_topics_def bump_topic_def dict_get_def)

lemma user_id_persona_rust_python: "user_id persona_rust_python = ''u1''"
  by (simp add: persona_rust_python_def user_id_update user_id_fresh)

lemma interaction_count_persona_rust_python: "interaction_count persona_rust_python = 2"
  by (simp add: persona_rust_python_def interaction_count_update create_new_persona_def Let_def)

text \<open>
  C8, as amended. When opening or reading the record of a user fails,
  \<open>get_or_create_persona\<close> ends with the exception that \<open>open\<close> or \<open>json.load\<close> raised
  (never with \<open>ProfileLoadError\<close>), leaves the file system as it was and returns no
  fresh persona. A record that is JSON is returned as the value it holds, whatever its
  shape. When \<open>os.path.exists\<close> finds no record, the function ends with the exception of
  \<open>os.makedirs\<close> if there is one, and otherwise returns the default persona: the given
  user id, \<open>interaction_count\<close> 0, neutral style and sentiment, empty histories and no
  topics.
\<close>

theorem get_or_create_persona_outcomes:
  "(os_path_exists fs (get_persona_filepath uid)
      \<and> open_read fs (get_persona_filepath uid) = Inl err \<longrightarrow>
        get_or_create_persona fs uid = (Inl err, fs))
   \<and> (open_read fs (get_persona_filepath uid) = Inr (NotJson s) \<longrightarrow>
        get_or_create_persona fs uid = (Inl JSONDecodeError, fs))
   \<and> (open_read fs (get_persona_filepath uid) = Inr (JsonText j) \<longrightarrow>
        get_or_create_persona fs uid = (Inr (json_value j), fs))
   \<and> fst (get_or_create_persona fs uid) \<noteq> Inl ProfileLoadError
   \<and> (\<not> os_path_exists fs (get_persona_filepath uid)
      \<and> create_new_persona_error fs = Some err \<longrightarrow>
        get_or_create_persona fs uid = (Inl err, fs))
   \<and> (\<not> os_path_exists fs (get_persona_filepath uid)
      \<and> create_new_persona_error fs = None \<longrightarrow>
        get_or_create_persona fs uid
          = (Inr (PersonaDict (fst (create_new_persona fs uid))), snd (create_new_persona fs uid))
        \<and> user_id (fst (create_new_persona fs uid)) = uid
        \<and> interaction_count (fst (create_new_persona fs uid)) = 0
        \<and> communication_style (fst (create_new_persona fs uid)) = ''neutral''
        \<and> current_sentiment (emotional_state (fst (create_new_persona fs uid))) = ''neutral''
        \<and> sentiment_history (emotional_state (fst (create_new_persona fs uid))) = []
        \<and> speed_history (behavioral_patterns (fst (create_new_persona fs uid))) = []
        \<and> length_history (behavioral_patterns (fst (create_new_persona fs uid))) = []
        \<and> topic_interests (contextual_preferences (fst (create_new_persona fs uid))) = [])"
proof (intro conjI impI)
  assume "os_path_exists fs (get_persona_filepath uid)
      \<and> open_read fs (get_persona_filepath uid) = Inl err"
  then show "get_or_create_persona fs uid = (Inl err, fs)"
    by (simp add: get_or_create_persona_def Let_def)
next
  assume a: "open_read fs (get_persona_filepath uid) = Inr (NotJson s)"
  with open_read_Inr_exists[OF a] show "get_or_create_persona fs uid = (Inl JSONDecodeError, fs)"
    by (simp add: get_or_create_persona_def Let_def json_load_def)
next
  assume a: "open_read fs (get_persona_filepath uid) = Inr (JsonText j)"
  with open_read_Inr_exists[OF a] show "get_or_create_persona fs uid = (Inr (json_value j), fs)"
    by (simp add: get_or_create_persona_def Let_def json_load_def)
next
  show "fst (get_or_create_persona fs uid) \<noteq> Inl ProfileLoadError"
    using open_read_not_ProfileLoadError[of fs "get_persona_filepath uid"]
      json_load_not_ProfileLoadError create_new_persona_error_not_ProfileLoadError[of fs]
    by (auto simp: get_or_create_persona_def Let_def split: sum.splits option.splits prod.splits)
next
  assume "\<not> os_path_exists fs (get_persona_filepath uid)
      \<and> create_new_persona_error fs = Some err"
  then show "get_or_create_persona fs uid = (Inl err, fs)"
    by (simp add: get_or_create_persona_def Let_def)
next
  assume "\<not> os_path_exists fs (get_persona_filepath uid)
      \<and> create_new_persona_error fs = None"
  then show "get_or_create_persona fs uid
          = (Inr (PersonaDict (fst (create_new_persona fs uid))), snd (create_new_persona fs uid))"
    by (simp add: get_or_create_persona_def Let_def split: prod.splits)
qed (simp_all add: create_new_persona_def Let_def)

theorem get_or_create_persona_outcomes_witness:
  "get_or_create_persona directory_fs ''u1'' = (Inl IsADirectoryError, directory_fs)
   \<and> get_or_create_persona corrupt_fs ''u1'' = (Inl JSONDecodeError, corrupt_fs)
   \<and> get_or_create_persona loadable_fs ''u1''
       = (Inr (json_value (json_of_persona persona_rust_python)), loadable_fs)
   \<and> get_or_create_persona no_access_fs ''u1'' = (Inl PermissionError, no_access_fs)
   \<and> get_or_create_persona empty_fs ''u1''
       = (Inr (PersonaDict (fst (create_new_persona empty_fs ''u1''))),
          snd (create_new_persona empty_fs ''u1''))
   \<and> interaction_count (fst (create_new_persona empty_fs ''u1'')) = 0"
proof -
  have a: "os_path_exists directory_fs (get_persona_filepath ''u1'')
      \<and> open_read directory_fs (get_persona_filepath ''u1'') = Inl IsADirectoryError"
    by (simp add: filepath_u1 open_read_def os_path_exists_def directory_fs_def)
  have b: "open_read corrupt_fs (get_persona_filepath ''u1'') = Inr (NotJson ''{ \"user_id\": '')"
    by (simp add: filepath_u1 open_read_def corrupt_fs_def)
  have c: "open_read loadable_fs (get_persona_filepath ''u1'')
      = Inr (JsonText (json_of_persona persona_rust_python))"
    by (simp add: filepath_u1 open_read_def loadable_fs_def json_dump_def)
  have d: "\<not> os_path_exists no_access_fs (get_persona_filepath ''u1'')
      \<and> create_new_persona_error no_access_fs = Some PermissionError"
    by (simp add: filepath_u1 os_path_exists_def no_access_fs_def create_new_persona_error_def
        os_makedirs_error_def PERSONA_DIR_def)
  have e: "\<not> os_path_exists empty_fs (get_persona_filepath ''u1'')
      \<and> create_new_persona_error empty_fs = None"
    by (simp add: filepath_u1 os_path_exists_def empty_fs_def create_new_persona_error_def
        os_makedirs_error_def PERSONA_DIR_def)
  note r1 = get_or_create_persona_outcomes[where fs = directory_fs and uid = "''u1''"
      and err = IsADirectoryError, THEN conjunct1, THEN mp, OF a]
  note r2 = get_or_create_persona_outcomes[where fs = corrupt_fs and uid = "''u1''"
      and s = "''{ \"user_id\": ''", THEN conjunct2, THEN conjunct1, THEN mp, OF b]
  note r3 = get_or_create_persona_outcomes[where fs = loadable_fs and uid = "''u1''"
      and j = "json_of_persona persona_rust_python",
      THEN conjunct2, THEN conjunct2, THEN conjunct1, THEN mp, OF c]
  note r5 = get_or_create_persona_outcomes[where fs = no_access_fs and uid = "''u1''"
      and err = PermissionError, THEN conjunct2, THEN conjunct2, THEN conjunct2, THEN conjunct2,
      THEN conjunct1, THEN mp, OF d]
  note r6 = get_or_create_persona_outcomes[where fs = empty_fs and uid = "''u1''",
      THEN conjunct2, THEN conjunct2, THEN conjunct2, THEN conjunct2, THEN conjunct2,
      THEN mp, OF e]
  note r6a = r6[THEN conjunct1]
  note r6b = r6[THEN conjunct2, THEN conjunct2, THEN conjunct1]
  from r1 r2 r3 r5 r6a r6b show ?thesis by (intro conjI)
qed

text \<open>
  C8 as stated fails. A record that is not JSON ends the function with
  \<open>JSONDecodeError\<close>, not with \<open>ProfileLoadError\<close>; a record that holds the number 42 is
  returned as it is, with no error; and a record in a directory the process may not
  search, here that of a persona with two interactions, is not found by
  \<open>os.path.exists\<close>, so that a fresh persona is returned in its place with no error.
\<close>

theorem get_or_create_persona_counterexample:
  "get_or_create_persona corrupt_fs ''u1'' = (Inl JSONDecodeError, corrupt_fs)
   \<and> JSONDecodeError \<noteq> ProfileLoadError
   \<and> get_or_create_persona wrong_shape_fs ''u1'' = (Inr (OtherJson (JInt 42)), wrong_shape_fs)
   \<and> files hidden_fs (get_persona_filepath ''u1'') = Some (json_dump persona_rust_python)
   \<and> interaction_count persona_rust_python = 2
   \<and> get_or_create_persona hidden_fs ''u1''
       = (Inr (PersonaDict (fst (create_new_persona hidden_fs ''u1''))), hidden_fs)
   \<and> interaction_count (fst (create_new_persona hidden_fs ''u1'')) = 0"
proof -
  have c: "get_or_create_persona corrupt_fs ''u1'' = (Inl JSONDecodeError, corrupt_fs)"
    by (simp add: get_or_create_persona_def Let_def filepath_u1 os_path_exists_def open_read_def
        corrupt_fs_def json_load_def)
  have "persona_of_json (JInt 42) = None"
    by (simp add: persona_of_json_def json_key_def)
  then have w: "get_or_create_persona wrong_shape_fs ''u1''
      = (Inr (OtherJson (JInt 42)), wrong_shape_fs)"
    by (simp add: get_or_create_persona_def Let_def filepath_u1 os_path_exists_def open_read_def
        wrong_shape_fs_def json_load_def json_value_def)
  have f: "files hidden_fs (get_persona_filepath ''u1'') = Some (json_dump persona_rust_python)"
    by (simp add: filepath_u1 hidden_fs_def)
  have ne: "\<not> os_path_exists hidden_fs (get_persona_filepath ''u1'')"
    by (simp add: filepath_u1 os_path_exists_def hidden_fs_def)
  have pd: "os_path_exists hidden_fs PERSONA_DIR"
    by (simp add: os_path_exists_def hidden_fs_def PERSONA_DIR_def)
  have h: "get_or_create_persona hidden_fs ''u1''
      = (Inr (PersonaDict (fst (create_new_persona hidden_fs ''u1''))), hidden_fs)"
    using ne pd
    by (simp add: get_or_create_persona_def Let_def create_new_persona_error_def
        create_new_persona_def)
  have z: "interaction_count (fst (create_new_persona hidden_fs ''u1'')) = 0"
    by (simp add: create_new_persona_def Let_def)
  have d: "JSONDecodeError \<noteq> ProfileLoadError" by simp
  from c d w f interaction_count_persona_rust_python h z show ?thesis by (intro conjI)
qed

section \<open>Saving and loading again\<close>

lemma those_map_json_int: "those (map (json_int \<circ> JInt) xs) = Some xs"
  by (induction xs) simp_all

lemma those_map_json_num: "those (map (json_num \<circ> JFloat) xs) = Some xs"
  by (induction xs) simp_all

lemma dict_set_new: "k \<notin> fst ` set d \<Longrightarrow> dict_set d k v = d @ [(k, v)]"
  by (induction d k v rule: dict_set.induct) auto

lemma foldl_dict_set_distinct:
  "distinct (map fst (acc @ kvs)) \<Longrightarrow>
     foldl (\<lambda>d (k, v). dict_set d k v) acc kvs = acc @ kvs"
proof (induction kvs arbitrary: acc)
  case Nil
  show ?case by simp
next
  case (Cons kv kvs)
  obtain k v where kv: "kv = (k, v)" by (cases kv)
  from Cons.prems kv have "k \<notin> fst ` set acc" by auto
  then have "dict_set acc k v = acc @ [(k, v)]" by (rule dict_set_new)
  with Cons.IH[of "acc @ [(k, v)]"] Cons.prems kv show ?case by simp
qed

lemma dict_of_items_distinct: "distinct (map fst kvs) \<Longrightarrow> dict_of_items kvs = kvs"
  using foldl_dict_set_distinct[of "[]" kvs] by (simp add: dict_of_items_def)

lemma those_topic_items:
  "those (map ((\<lambda>(topic, n). map_option (Pair topic) (json_int n))
                \<circ> (\<lambda>(topic, n). (topic, JInt n))) ti) = Some ti"
  by (induction ti) auto

lemma keys_topic_items:
  "map (fst \<circ> (\<lambda>(topic, n). (topic, JInt n))) ti = map fst ti"
  by (induction ti) auto

lemma emotional_state_round_trip:
  "emotional_state_of_json
     (JObject [(''current_sentiment'', JString (current_sentiment es)),
               (''sentiment_history'', JArray (map JFloat (sentiment_history es)))]) = Some es"
  by (simp add: emotional_state_of_json_def json_key_def dict_of_items_def those_map_json_num)

lemma behavioral_patterns_round_trip:
  "behavioral_patterns_of_json
     (JObject [(''avg_typing_speed'', JString (avg_typing_speed bp)),
               (''speed_history'', JArray (map JInt (speed_history bp))),
               (''avg_message_length'', JFloat (avg_message_length bp)),
               (''length_history'', JArray (map JInt (length_history bp)))]) = Some bp"
  by (simp add: behavioral_patterns_of_json_def json_key_def dict_of_items_def those_map_json_int)

lemma contextual_preferences_round_trip:
  assumes "distinct (map fst (topic_interests cp))"
  shows "contextual_preferences_of_json
     (JObject [(''topic_interests'', JObject
         (map (\<lambda>(topic, n). (topic, JInt n)) (topic_interests cp)))]) = Some cp"
proof -
  from assms have "dict_of_items (map (\<lambda>(topic, n). (topic, JInt n)) (topic_interests cp))
      = map (\<lambda>(topic, n). (topic, JInt n)) (topic_interests cp)"
    by (intro dict_of_items_distinct) (simp add: keys_topic_items)
  moreover have "dict_of_items [(''topic_interests'', j)] = [(''topic_interests'', j)]" for j :: json
    by (simp add: dict_of_items_def)
  ultimately show ?thesis
    by (simp add: contextual_preferences_of_json_def json_key_def those_topic_items)
qed

lemma persona_of_json_of_persona:
  assumes "distinct (map fst (topic_interests (contextual_preferences p)))"
  shows "persona_of_json (json_of_persona p) = Some p"
  by (simp add: persona_of_json_def json_of_persona_def json_key_def dict_of_items_def
      emotional_state_round_trip behavioral_patterns_round_trip
      contextual_preferences_round_trip[OF assms])

lemma json_load_json_dump:
  "distinct (map fst (topic_interests (contextual_preferences p))) \<Longrightarrow>
     json_load (json_dump p) = Inr (PersonaDict p)"
  by (simp add: json_load_def json_dump_def json_value_def persona_of_json_of_persona)


lemma open_write_ok:
  "path \<notin> denied fs \<Longrightarrow> path \<notin> dirs fs \<Longrightarrow> os_path_dirname path \<in> dirs fs \<Longrightarrow>
     open_write fs path contents = Inr (fs\<lparr>files := (files fs)(path \<mapsto> contents)\<rparr>)"
  by (simp add: open_write_def)

text \<open>
  C9. When the user's file may be written (its path is not denied and not a directory,
  and its directory exists), \<open>save_persona\<close> writes the persona; loading the user's
  persona then returns the persona that was saved, equal in every field, and saving
  that one again leaves the file system as it is. The keys of \<open>topic_interests\<close> are
  distinct, as those of a dict are.
\<close>

theorem save_load_save_round_trip:
  assumes "get_persona_filepath (user_id p) \<notin> denied fs"
    and "get_persona_filepath (user_id p) \<notin> dirs fs"
    and "os_path_dirname (get_persona_filepath (user_id p)) \<in> dirs fs"
    and "distinct (map fst (topic_interests (contextual_preferences p)))"
  shows "save_persona p fs
           = Inr (fs\<lparr>files := (files fs)(get_persona_filepath (user_id p) \<mapsto> json_dump p)\<rparr>)
         \<and> get_or_create_persona
             (fs\<lparr>files := (files fs)(get_persona_filepath (user_id p) \<mapsto> json_dump p)\<rparr>)
             (user_id p)
           = (Inr (PersonaDict p),
              fs\<lparr>files := (files fs)(get_persona_filepath (user_id p) \<mapsto> json_dump p)\<rparr>)
         \<and> save_persona p
             (fs\<lparr>files := (files fs)(get_persona_filepath (user_id p) \<mapsto> json_dump p)\<rparr>)
           = Inr (fs\<lparr>files := (files fs)(get_persona_filepath (user_id p) \<mapsto> json_dump p)\<rparr>)"
proof -
  let ?path = "get_persona_filepath (user_id p)"
  let ?fs' = "fs\<lparr>files := (files fs)(?path \<mapsto> json_dump p)\<rparr>"
  have s1: "save_persona p fs = Inr ?fs'"
    by (simp add: save_persona_def Let_def open_write_ok[OF assms(1-3)])
  have ex: "os_path_exists ?fs' ?path"
    using assms(1) by (simp add: os_path_exists_def)
  have rd: "open_read ?fs' ?path = Inr (json_dump p)"
    using assms(1) by (simp add: open_read_def)
  have ld: "get_or_create_persona ?fs' (user_id p) = (Inr (PersonaDict p), ?fs')"
    by (simp add: get_or_create_persona_def Let_def ex rd json_load_json_dump[OF assms(4)])
  have s2: "save_persona p ?fs' = Inr ?fs'"
    using assms(1-3) by (simp add: save_persona_def Let_def open_write_def)
  from s1 ld s2 show ?thesis by (intro conjI)
qed

theorem save_load_save_round_trip_witness:
  "save_persona persona_rust_python personas_fs = Inr loadable_fs
   \<and> get_or_create_persona loadable_fs ''u1'' = (Inr (PersonaDict persona_rust_python), loadable_fs)
   \<and> save_persona persona_rust_python loadable_fs = Inr loadable_fs"
proof -
  have dn: "os_path_dirname ''personas/u1_persona.json'' = ''personas''"
    by (simp add: os_path_dirname_def)
  have a: "get_persona_filepath (user_id persona_rust_python) \<notin> denied personas_fs"
    and b: "get_persona_filepath (user_id persona_rust_python) \<notin> dirs personas_fs"
    and c: "os_path_dirname (get_persona_filepath (user_id persona_rust_python)) \<in> dirs personas_fs"
    by (simp_all add: user_id_persona_rust_python filepath_u1 dn personas_fs_def)
  have d: "distinct (map fst (topic_interests (contextual_preferences persona_rust_python)))"
    by (simp add: topic_interests_persona_rust_python)
  have fs': "personas_fs\<lparr>files := (files personas_fs)
        (get_persona_filepath ''u1'' \<mapsto> json_dump persona_rust_python)\<rparr>
      = loadable_fs"
    by (simp add: filepath_u1 personas_fs_def loadable_fs_def)
  from save_load_save_round_trip[OF a b c d] show ?thesis
    by (simp only: fs' user_id_persona_rust_python)
qed


end
